theory Spec2Isabelle
  imports Complex_Main
begin

section \<open>Faro arm diagnostics: status line, log interleaving, watchdog\<close>

text \<open>
  A shallow embedding of \<^verbatim>\<open>arm_diagnostics.py\<close>. Conventions:
  \<^item> a Python \<^verbatim>\<open>str\<close> is a \<^typ>\<open>string\<close>, one list element per Python character;
  \<^item> every method of \<^verbatim>\<open>StatusDisplay\<close> takes the object's fields as a record and
    returns the updated record together with the characters it wrote to
    \<^verbatim>\<open>sys.stdout\<close>, in order; each method holds the lock for its whole body, so a
    method is one atomic step;
  \<^item> readings of \<^verbatim>\<open>time.perf_counter()\<close> and the periods computed from them are Python
    floats; they are modelled as \<^typ>\<open>real\<close>, so rounding, infinities and NaN are not part
    of the model;
  \<^item> the answer of the environment to \<^verbatim>\<open>shutil.get_terminal_size\<close> and the clock readings
    are inputs of the functions that ask for them.
\<close>

subsection \<open>Characters\<close>

definition CR :: char where
  "CR = CHR 0x0D"

definition LF :: char where
  "LF = CHR 0x0A"

definition SP :: char where
  "SP = CHR '' ''"

definition spaces :: "nat \<Rightarrow> string" where
  "spaces n = replicate n SP"

text \<open>\<^verbatim>\<open>text.replace("\n", " ")\<close>\<close>

definition replace_newlines :: "string \<Rightarrow> string" where
  "replace_newlines text = map (\<lambda>c. if c = LF then SP else c) text"

subsection \<open>StatusDisplay\<close>

record status_display =
  last_text :: string
  last_length :: nat
  active :: bool
  last_width :: int

text \<open>
  \<^verbatim>\<open>shutil.get_terminal_size(fallback=(w, 24)).columns\<close>: the width the environment
  reports (\<open>Some\<close>), or the fallback when no width can be measured (\<open>None\<close>).
\<close>

definition get_terminal_columns :: "int \<Rightarrow> int option \<Rightarrow> int" where
  "get_terminal_columns fallback measured =
     (case measured of None \<Rightarrow> fallback | Some w \<Rightarrow> w)"

text \<open>\<^verbatim>\<open>StatusDisplay.__init__\<close>\<close>

definition init :: "int option \<Rightarrow> status_display" where
  "init measured =
     \<lparr>last_text = [], last_length = 0, active = False,
      last_width = get_terminal_columns 120 measured\<rparr>"

text \<open>
  The local variables of \<^verbatim>\<open>write\<close>: \<open>width\<close> (line 42), \<open>max_len\<close> (line 44) and
  \<open>text\<close> after lines 41 to 46.
\<close>

definition write_width :: "status_display \<Rightarrow> int option \<Rightarrow> int" where
  "write_width s measured =
     get_terminal_columns (if last_width s = 0 then 120 else last_width s) measured"

definition write_max_len :: "int \<Rightarrow> int" where
  "write_max_len width = max 20 (width - 1)"

definition write_text :: "int \<Rightarrow> string \<Rightarrow> string" where
  "write_text width text =
     (let text1 = replace_newlines text;
          max_len = write_max_len width
      in if int (length text1) > max_len
         then take (nat (max_len - 3)) text1 @ ''...''
         else text1)"

text \<open>\<^verbatim>\<open>StatusDisplay.write\<close>; \<open>None\<close> is Python's \<^verbatim>\<open>None\<close>.\<close>

definition "write" :: "string option \<Rightarrow> int option \<Rightarrow> status_display \<Rightarrow> status_display \<times> string" where
  "write text measured s =
     (case text of
        None \<Rightarrow> (s, [])
      | Some t \<Rightarrow>
          (let width = write_width s measured;
               text2 = write_text width t;
               out = (CR # text2) @
                     (if length text2 < last_length s
                      then spaces (last_length s - length text2) else [])
           in (s\<lparr>last_text := text2, last_length := length text2,
                  active := True, last_width := width\<rparr>, out)))"

text \<open>\<^verbatim>\<open>StatusDisplay.interrupt\<close>\<close>

definition interrupt :: "status_display \<Rightarrow> status_display \<times> string" where
  "interrupt s =
     (if active s
      then (s\<lparr>active := False\<rparr>, [CR] @ (spaces (last_length s) @ [CR]))
      else (s, [CR]))"

text \<open>\<^verbatim>\<open>StatusDisplay.restore\<close>\<close>

definition restore :: "status_display \<Rightarrow> status_display \<times> string" where
  "restore s =
     (if last_text s = [] then (s, [])
      else (s\<lparr>active := True\<rparr>,
            (CR # last_text s) @
            (if length (last_text s) < last_length s
             then spaces (last_length s - length (last_text s)) else [])))"

text \<open>\<^verbatim>\<open>StatusDisplay.clear\<close>\<close>

definition clear :: "status_display \<Rightarrow> status_display \<times> string" where
  "clear s =
     (s\<lparr>last_text := [], last_length := 0, active := False\<rparr>,
      (CR # spaces (last_length s)) @ [CR])"

subsection \<open>The terminal line\<close>

text \<open>
  The line of the terminal the cursor is on: a carriage return moves the cursor to
  column 0, any other character overwrites the cell under the cursor (or extends the
  line) and moves the cursor right. The line is taken as unbounded: wrapping at the
  right margin is not modelled.
\<close>

record terminal =
  line :: string
  col :: nat

definition put_char :: "char \<Rightarrow> terminal \<Rightarrow> terminal" where
  "put_char c T =
     (if c = CR then T\<lparr>col := 0\<rparr>
      else T\<lparr>line := (if col T < length (line T) then (line T)[col T := c]
                       else line T @ spaces (col T - length (line T)) @ [c]),
             col := col T + 1\<rparr>)"

definition feed :: "string \<Rightarrow> terminal \<Rightarrow> terminal" where
  "feed out T = fold put_char out T"

text \<open>What is visible on the line: its characters up to the last one that is not a space.\<close>

definition rstrip :: "string \<Rightarrow> string" where
  "rstrip xs = rev (dropWhile (\<lambda>c. c = SP) (rev xs))"

definition visible :: "terminal \<Rightarrow> string" where
  "visible T = rstrip (line T)"

subsection \<open>Sequences of calls\<close>

datatype call = Write "string option" "int option" | Interrupt | Restore | Clear

fun do_call :: "call \<Rightarrow> status_display \<Rightarrow> status_display \<times> string" where
  "do_call (Write text measured) s = write text measured s"
| "do_call Interrupt s = interrupt s"
| "do_call Restore s = restore s"
| "do_call Clear s = clear s"

text \<open>The display and the terminal line after a sequence of calls, first call first.\<close>

fun run :: "call list \<Rightarrow> status_display \<times> terminal \<Rightarrow> status_display \<times> terminal" where
  "run [] sT = sT"
| "run (c # cs) (s, T) = run cs (fst (do_call c s), feed (snd (do_call c s)) T)"

text \<open>The recorded length is the length of the recorded text.\<close>

definition length_consistent :: "status_display \<Rightarrow> bool" where
  "length_consistent s = (last_length s = length (last_text s))"

subsection \<open>StatusAwareStreamHandler\<close>

text \<open>
  The handler works on the global \<^verbatim>\<open>STATUS_DISPLAY\<close> and on \<^verbatim>\<open>sys.stdout\<close>. A statement
  is a function from this world to its result, an exception (\<open>Inl\<close>) or a value
  (\<open>Inr\<close>), and the world it leaves.
\<close>

record world =
  display :: status_display
  stdout :: string

type_synonym ('e, 'a) action = "world \<Rightarrow> ('e + 'a) \<times> world"

text \<open>A method of \<^verbatim>\<open>STATUS_DISPLAY\<close> run as a statement: it writes and does not raise.\<close>

definition after_call :: "(status_display \<Rightarrow> status_display \<times> string) \<Rightarrow> world \<Rightarrow> world" where
  "after_call f w =
     \<lparr>display = fst (f (display w)), stdout = stdout w @ snd (f (display w))\<rparr>"

definition display_call :: "(status_display \<Rightarrow> status_display \<times> string) \<Rightarrow> ('e, unit) action" where
  "display_call f w = (Inr (), after_call f w)"

text \<open>Two statements in a row: an exception in the first skips the second.\<close>

definition then_do :: "('e, unit) action \<Rightarrow> ('e, 'a) action \<Rightarrow> ('e, 'a) action" where
  "then_do first second w =
     (case first w of
        (Inl e, w1) \<Rightarrow> (Inl e, w1)
      | (Inr u, w1) \<Rightarrow> second w1)"

text \<open>
  \<^verbatim>\<open>try: body finally: cleanup\<close>: the cleanup runs whatever the body does; the result of
  the body, exception or value, is the result of the whole unless the cleanup raises.
\<close>

definition try_finally :: "('e, 'a) action \<Rightarrow> ('e, unit) action \<Rightarrow> ('e, 'a) action" where
  "try_finally body cleanup w =
     (case body w of
        (r, w1) \<Rightarrow>
          (case cleanup w1 of
             (Inl e, w2) \<Rightarrow> (Inl e, w2)
           | (Inr u, w2) \<Rightarrow> (r, w2)))"

text \<open>
  \<^verbatim>\<open>StatusAwareStreamHandler.emit\<close>; \<open>super_emit\<close> is \<^verbatim>\<open>logging.StreamHandler.emit\<close>, of
  which nothing is assumed.
\<close>

definition emit :: "('r \<Rightarrow> ('e, unit) action) \<Rightarrow> 'r \<Rightarrow> ('e, unit) action" where
  "emit super_emit log_record =
     then_do (display_call interrupt)
       (try_finally (super_emit log_record) (display_call restore))"

subsection \<open>Update payloads\<close>

text \<open>
  The exceptions a conversion can raise: \<^verbatim>\<open>TypeError\<close>, \<^verbatim>\<open>ValueError\<close>, and any other
  class derived from \<^verbatim>\<open>Exception\<close> (\<^verbatim>\<open>OverflowError\<close>, an error of the driver bridge).
\<close>

datatype exc = TypeError | ValueError | OtherException

text \<open>
  A value held by an attribute of the payload, described by what \<^verbatim>\<open>_format_status\<close>
  asks of it: the outcome of \<^verbatim>\<open>float(v)\<close>, the text \<^verbatim>\<open>str(v)\<close>, and whether it is
  \<^verbatim>\<open>None\<close>.
\<close>

record pyval =
  float_of :: "exc + real"
  str_of :: string
  is_none :: bool

definition py_None :: pyval where
  "py_None = \<lparr>float_of = Inl TypeError, str_of = ''None'', is_none = True\<rparr>"

text \<open>The string \<^verbatim>\<open>'-'\<close>, the default of the \<^verbatim>\<open>TimeStamp\<close> lookup.\<close>

definition py_dash :: pyval where
  "py_dash = \<lparr>float_of = Inl ValueError, str_of = ''-'', is_none = False\<rparr>"

text \<open>
  The payload: for each attribute name, its value when the object has the attribute.
  Reading an attribute is taken not to raise.
\<close>

type_synonym payload = "string \<Rightarrow> pyval option"

definition getattr :: "payload \<Rightarrow> string \<Rightarrow> pyval \<Rightarrow> pyval" where
  "getattr update name default_value =
     (case update name of None \<Rightarrow> default_value | Some v \<Rightarrow> v)"

definition hasattr :: "payload \<Rightarrow> string \<Rightarrow> bool" where
  "hasattr update name = (update name \<noteq> None)"

subsection \<open>Formatting\<close>

text \<open>
  \<open>fmt w p x\<close> stands for Python's \<^verbatim>\<open>format(x, "w.pf")\<close> of a float, which does not raise;
  it is a parameter of the functions below.
\<close>

type_synonym float_format = "nat \<Rightarrow> nat \<Rightarrow> real \<Rightarrow> string"

fun decimal :: "nat \<Rightarrow> string" where
  "decimal n =
     (if n < 10 then [''0123456789'' ! n]
      else decimal (n div 10) @ [''0123456789'' ! (n mod 10)])"

declare decimal.simps [simp del]

text \<open>\<^verbatim>\<open>f"{n:06d}"\<close> for \<open>n \<ge> 0\<close>\<close>

definition format_06d :: "nat \<Rightarrow> string" where
  "format_06d n = replicate (6 - length (decimal n)) CHR ''0'' @ decimal n"

text \<open>\<^verbatim>\<open>f"{s:>10}"\<close>\<close>

definition rjust :: "nat \<Rightarrow> string \<Rightarrow> string" where
  "rjust w s = spaces (w - length s) @ s"

text \<open>\<^verbatim>\<open>sep.join(items)\<close>\<close>

fun join :: "string \<Rightarrow> string list \<Rightarrow> string" where
  "join sep [] = []"
| "join sep [x] = x"
| "join sep (x # y # ys) = x @ sep @ join sep (y # ys)"

text \<open>
  \<^verbatim>\<open>try: body except ...\<close>: the result of the body when it does not raise; otherwise the
  value of the first handler whose class test accepts the exception; the exception
  itself when no handler accepts it.
\<close>

fun try_except :: "exc + 'a \<Rightarrow> ((exc \<Rightarrow> bool) \<times> 'a) list \<Rightarrow> exc + 'a" where
  "try_except (Inr v) handlers = Inr v"
| "try_except (Inl e) [] = Inl e"
| "try_except (Inl e) ((accepts, v) # handlers) =
     (if accepts e then Inr v else try_except (Inl e) handlers)"

text \<open>\<^verbatim>\<open>except (TypeError, ValueError)\<close> and \<^verbatim>\<open>except Exception\<close>\<close>

definition is_TypeError_or_ValueError :: "exc \<Rightarrow> bool" where
  "is_TypeError_or_ValueError e = (e = TypeError \<or> e = ValueError)"

definition is_Exception :: "exc \<Rightarrow> bool" where
  "is_Exception e = True"

definition bind_exc :: "exc + 'a \<Rightarrow> ('a \<Rightarrow> exc + 'b) \<Rightarrow> exc + 'b" where
  "bind_exc r f = (case r of Inl e \<Rightarrow> Inl e | Inr v \<Rightarrow> f v)"

subsection \<open>FaroArmListener\<close>

text \<open>The fields of the listener that the update handler and the watchdog use.\<close>

record listener =
  update_count :: nat
  last_button_state :: pyval
  last_receive_time :: "real option"
  avg_period :: "real option"
  start_time :: real

text \<open>
  The values \<^verbatim>\<open>FaroArmListener.__init__\<close> gives these fields (lines 140 to 144), with
  \<open>now\<close> the clock reading it takes.
\<close>

definition listener_init :: "real \<Rightarrow> listener" where
  "listener_init now =
     \<lparr>update_count = 0, last_button_state = py_None, last_receive_time = None,
      avg_period = None, start_time = now\<rparr>"

text \<open>The local function \<^verbatim>\<open>safe_float\<close> of \<^verbatim>\<open>_format_status\<close>\<close>

definition safe_float :: "float_format \<Rightarrow> pyval \<Rightarrow> exc + string" where
  "safe_float fmt v =
     try_except (map_sum id (fmt 8 3) (float_of v))
       [(is_TypeError_or_ValueError, ''   n/a ''), (is_Exception, ''   err '')]"

text \<open>The loop over \<^verbatim>\<open>range(1, 8)\<close> that fills \<^verbatim>\<open>angles\<close>\<close>

fun angles_loop :: "float_format \<Rightarrow> payload \<Rightarrow> nat list \<Rightarrow> string list \<Rightarrow> exc + string list" where
  "angles_loop fmt update [] angles = Inr angles"
| "angles_loop fmt update (idx # rest) angles =
     (let attr = ''Angle'' @ decimal idx
      in if hasattr update attr
         then bind_exc
                (try_except (map_sum id (fmt 6 2) (float_of (getattr update attr py_None)))
                   [(is_TypeError_or_ValueError, ''  n/a''), (is_Exception, ''  err'')])
                (\<lambda>a. angles_loop fmt update rest (angles @ [a]))
         else angles_loop fmt update rest angles)"

text \<open>\<^verbatim>\<open>FaroArmListener._format_status\<close>\<close>

definition format_status ::
    "float_format \<Rightarrow> listener \<Rightarrow> payload \<Rightarrow> real option \<Rightarrow> real \<Rightarrow> exc + string" where
  "format_status fmt self update dt uptime =
     (let dt_ms = (case dt of Some d \<Rightarrow> fmt 6 1 (d * 1000) @ ''ms'' | None \<Rightarrow> ''   --- '');
          avg_hz = (case avg_period self of
                      Some a \<Rightarrow> if a \<noteq> 0 \<and> a > 0 then fmt 6 2 (1 / a) @ ''Hz'' else ''--.-Hz''
                    | None \<Rightarrow> ''--.-Hz'');
          buttons = getattr update ''Buttons'' py_None;
          buttons_display = (if \<not> is_none buttons then str_of buttons else ''-'')
      in bind_exc (angles_loop fmt update [1..<8] []) (\<lambda>angles.
         let angles_display = (if angles \<noteq> [] then join '', '' angles else ''n/a'') in
         bind_exc (safe_float fmt (getattr update ''X'' py_None)) (\<lambda>x.
         bind_exc (safe_float fmt (getattr update ''Y'' py_None)) (\<lambda>y.
         bind_exc (safe_float fmt (getattr update ''Z'' py_None)) (\<lambda>z.
         bind_exc (safe_float fmt (getattr update ''A'' py_None)) (\<lambda>a.
         bind_exc (safe_float fmt (getattr update ''B'' py_None)) (\<lambda>b.
         bind_exc (safe_float fmt (getattr update ''C'' py_None)) (\<lambda>c.
         let status =
               ''#'' @ format_06d (update_count self) @
               '' | ts='' @ rjust 10 (str_of (getattr update ''TimeStamp'' py_dash)) @ '' | '' @
               ''XYZ=('' @ x @ '', '' @ y @ '', '' @ z @ '') | '' @
               ''ABC=('' @ a @ '', '' @ b @ '', '' @ c @ '') | '' @
               ''Angles=('' @ angles_display @ '') | Buttons='' @ buttons_display @
               '' | dt='' @ dt_ms @ '' | '' @
               ''avg='' @ avg_hz @ '' | uptime='' @ fmt 6 1 uptime @ ''s'';
             collapsed = replace_newlines status
         in Inr (take 512 collapsed)))))))))"

subsection \<open>The update handler\<close>

text \<open>
  What the handler and the watchdog ask of the rest of the program, in the order they
  ask it: a record handed to \<^verbatim>\<open>LOGGER\<close>, or a text handed to \<^verbatim>\<open>STATUS_DISPLAY.write\<close>.
\<close>

datatype level = DEBUG | INFO | WARNING

datatype message =
    Gap real
  | First_callback
  | First_sender_type
  | Payload_attributes
  | First_live_update
  | Button_changed pyval pyval
  | No_updates real
  | Stalled real

datatype effect = Log level message | Status_write string

text \<open>
  The closure returned by \<^verbatim>\<open>FaroArmListener._build_handler\<close>, called with the payload
  \<^verbatim>\<open>event_args.FaroArmUpdate\<close> and the clock reading \<open>now\<close>.
\<close>

definition handler ::
    "float_format \<Rightarrow> payload \<Rightarrow> real \<Rightarrow> listener \<Rightarrow> (exc + unit) \<times> listener \<times> effect list" where
  "handler fmt update now self =
     (let self1 = self\<lparr>update_count := update_count self + 1\<rparr>;
          dt = (case last_receive_time self1 of Some t \<Rightarrow> Some (now - t) | None \<Rightarrow> None);
          self2 = (case dt of
                     Some d \<Rightarrow>
                       (case avg_period self1 of
                          None \<Rightarrow> self1\<lparr>avg_period := Some d\<rparr>
                        | Some p \<Rightarrow> self1\<lparr>avg_period := Some ((0.9 * p) + (0.1 * d))\<rparr>)
                   | None \<Rightarrow> self1);
          log1 = (case dt of
                    Some d \<Rightarrow> if d > 0.5 then [Log WARNING (Gap d)] else []
                  | None \<Rightarrow> [Log DEBUG First_callback]);
          self3 = self2\<lparr>last_receive_time := Some now\<rparr>;
          uptime = now - start_time self3
      in case format_status fmt self3 update dt uptime of
           Inl e \<Rightarrow> (Inl e, self3, log1)
         | Inr status \<Rightarrow>
             (let log2 = (if update_count self3 = 1
                          then [Log DEBUG First_sender_type, Log DEBUG Payload_attributes,
                                Log INFO First_live_update]
                          else []);
                  buttons = getattr update ''Buttons'' py_None
              in if buttons \<noteq> last_button_state self3
                 then (Inr (), self3\<lparr>last_button_state := buttons\<rparr>,
                       log1 @ [Status_write status] @ log2 @
                       [Log INFO (Button_changed (last_button_state self3) buttons)])
                 else (Inr (), self3, log1 @ [Status_write status] @ log2)))"

text \<open>
  The periods the handler computes over a run of calls: the value of \<open>avg_period\<close>
  after each call, first call first.
\<close>

fun handler_periods ::
    "float_format \<Rightarrow> (payload \<times> real) list \<Rightarrow> listener \<Rightarrow> real option list" where
  "handler_periods fmt [] self = []"
| "handler_periods fmt ((update, now) # events) self =
     avg_period (fst (snd (handler fmt update now self))) #
     handler_periods fmt events (fst (snd (handler fmt update now self)))"

subsection \<open>The watchdog\<close>

text \<open>The local variables of \<^verbatim>\<open>_monitor_updates\<close> that live across iterations.\<close>

record watchdog =
  last_count :: nat
  last_warning_time :: real

text \<open>
  One iteration of the loop of \<^verbatim>\<open>_monitor_updates\<close>, at clock reading \<open>now\<close>, reading
  the listener fields as they are at that moment.
\<close>

definition monitor_tick :: "real \<Rightarrow> listener \<Rightarrow> watchdog \<Rightarrow> watchdog \<times> effect list" where
  "monitor_tick now self wd =
     (let elapsed_since_start = now - start_time self
      in if update_count self = 0 \<and> elapsed_since_start > 2.0
         then (if now - last_warning_time wd > 5.0
               then (wd\<lparr>last_warning_time := now\<rparr>,
                     [Log WARNING (No_updates elapsed_since_start)])
               else (wd, []))
         else if update_count self = last_count wd
         then (case last_receive_time self of
                 Some t \<Rightarrow>
                   if now - t > 3.0
                   then (if now - last_warning_time wd > 5.0
                         then (wd\<lparr>last_warning_time := now\<rparr>,
                               [Log WARNING (Stalled (now - t))])
                         else (wd, []))
                   else (wd, [])
               | None \<Rightarrow> (wd, []))
         else (wd\<lparr>last_count := update_count self\<rparr>, []))"

text \<open>
  \<^verbatim>\<open>FaroArmListener._monitor_updates\<close> over the wake-ups that happen before the
  shutdown event is set: each comes with its clock reading and the listener as it is
  then. The result is the final loop state and the warnings, oldest first.
\<close>

fun monitor_loop :: "(real \<times> listener) list \<Rightarrow> watchdog \<Rightarrow> watchdog \<times> effect list" where
  "monitor_loop [] wd = (wd, [])"
| "monitor_loop ((now, self) # ticks) wd =
     (fst (monitor_loop ticks (fst (monitor_tick now self wd))),
      snd (monitor_tick now self wd) @ snd (monitor_loop ticks (fst (monitor_tick now self wd))))"

definition monitor_updates :: "(real \<times> listener) list \<Rightarrow> watchdog \<times> effect list" where
  "monitor_updates ticks = monitor_loop ticks \<lparr>last_count = 0, last_warning_time = 0.0\<rparr>"

subsection \<open>The line and the display together\<close>

text \<open>
  A call whose text, if any, has no carriage return of its own: the line model above
  takes every other character as printable.
\<close>

definition printable_call :: "call \<Rightarrow> bool" where
  "printable_call c = (case c of Write (Some t) m \<Rightarrow> CR \<notin> set t | _ \<Rightarrow> True)"

text \<open>
  The line shows what the display stands for: the status text while the status line is
  active, nothing while it is not.
\<close>

definition line_shows_status :: "status_display \<Rightarrow> terminal \<Rightarrow> bool" where
  "line_shows_status s T =
     (length_consistent s \<and> CR \<notin> set (last_text s)
      \<and> visible T = (if active s then rstrip (last_text s) else []))"

section \<open>Facts about the status line\<close>

lemma CR_neq_SP: "CR \<noteq> SP" "SP \<noteq> CR"
  by (simp_all add: CR_def SP_def)

lemma length_spaces: "length (spaces n) = n"
  by (simp add: spaces_def)

lemma CR_notin_spaces: "CR \<notin> set (spaces n)"
  by (auto simp: spaces_def CR_neq_SP)

lemma feed_Nil: "feed [] T = T"
  by (simp add: feed_def)

lemma feed_Cons: "feed (c # w) T = feed w (put_char c T)"
  by (simp add: feed_def)

lemma feed_append: "feed (a @ b) T = feed b (feed a T)"
  by (simp add: feed_def)

lemma feed_printable:
  "CR \<notin> set w \<Longrightarrow> col T \<le> length (line T) \<Longrightarrow>
   line (feed w T) = take (col T) (line T) @ w @ drop (col T + length w) (line T)
   \<and> col (feed w T) = col T + length w"
proof (induction w arbitrary: T)
  case Nil
  then show ?case by (simp add: feed_Nil)
next
  case (Cons c w)
  let ?T = "put_char c T"
  from Cons.prems have c: "c \<noteq> CR" and w: "CR \<notin> set w" by auto
  show ?case
  proof (cases "col T < length (line T)")
    case True
    then have l: "line ?T = (line T)[col T := c]" and k: "col ?T = Suc (col T)"
      using c by (simp_all add: put_char_def)
    have le: "col ?T \<le> length (line ?T)" using True l k by simp
    have t: "take (Suc (col T)) ((line T)[col T := c]) = take (col T) (line T) @ [c]"
      using True by (simp add: take_Suc_conv_app_nth)
    show ?thesis
      using Cons.IH [OF w le] l k t by (simp add: feed_Cons)
  next
    case False
    with Cons.prems have eq: "col T = length (line T)" by simp
    then have l: "line ?T = line T @ [c]" and k: "col ?T = Suc (col T)"
      using c by (simp_all add: put_char_def spaces_def)
    have le: "col ?T \<le> length (line ?T)" using eq l k by simp
    show ?thesis
      using Cons.IH [OF w le] l k eq by (simp add: feed_Cons)
  qed
qed

lemma line_feed_CR:
  "CR \<notin> set w \<Longrightarrow> line (feed (CR # w) T) = w @ drop (length w) (line T)"
  using feed_printable [of w "put_char CR T"]
  by (simp add: feed_Cons put_char_def)


lemma length_replace_newlines: "length (replace_newlines t) = length t"
  by (simp add: replace_newlines_def)

lemma write_width_measured: "write_width s (Some w) = w"
  by (simp add: write_width_def get_terminal_columns_def)

lemma write_fields:
  "last_text (fst (write (Some t) m s)) = write_text (write_width s m) t"
  "last_length (fst (write (Some t) m s)) = length (write_text (write_width s m) t)"
  "active (fst (write (Some t) m s))"
  "last_width (fst (write (Some t) m s)) = write_width s m"
  by (simp_all add: write_def Let_def)

lemma write_output:
  "snd (write (Some t) m s) =
     (CR # write_text (write_width s m) t) @
     spaces (last_length s - length (write_text (write_width s m) t))"
  by (simp add: write_def Let_def spaces_def)

lemma write_text_short:
  "int (length t) \<le> write_max_len width \<Longrightarrow> write_text width t = replace_newlines t"
  by (simp add: write_text_def Let_def length_replace_newlines)

lemma write_text_long:
  assumes "int (length t) > write_max_len width"
  shows "int (length (write_text width t)) = write_max_len width"
    and "drop (nat (write_max_len width - 3)) (write_text width t) = ''...''"
    and "take (nat (write_max_len width - 3)) (write_text width t)
           = take (nat (write_max_len width - 3)) (replace_newlines t)"
proof -
  have m: "20 \<le> write_max_len width" by (simp add: write_max_len_def)
  have w: "write_text width t = take (nat (write_max_len width - 3)) (replace_newlines t) @ ''...''"
    using assms by (simp add: write_text_def Let_def length_replace_newlines)
  have l: "length (take (nat (write_max_len width - 3)) (replace_newlines t)) = nat (write_max_len width - 3)"
    using assms m by (simp add: length_replace_newlines)
  show "int (length (write_text width t)) = write_max_len width"
    using m by (simp add: w l del: length_take)
  show "drop (nat (write_max_len width - 3)) (write_text width t) = ''...''"
    using l by (simp add: w del: length_take)
  show "take (nat (write_max_len width - 3)) (write_text width t)
           = take (nat (write_max_len width - 3)) (replace_newlines t)"
    using l by (simp add: w del: length_take)
qed

lemma interrupt_fields:
  "last_text (fst (interrupt s)) = last_text s"
  "last_length (fst (interrupt s)) = last_length s"
  "active (fst (interrupt s)) = False"
  "last_width (fst (interrupt s)) = last_width s"
  by (simp_all add: interrupt_def)

lemma restore_fields:
  "last_text (fst (restore s)) = last_text s"
  "last_length (fst (restore s)) = last_length s"
  "active (fst (restore s)) = (if last_text s = [] then active s else True)"
  "last_width (fst (restore s)) = last_width s"
  by (simp_all add: restore_def)

lemma clear_fields:
  "last_text (fst (clear s)) = []"
  "last_length (fst (clear s)) = 0"
  "active (fst (clear s)) = False"
  by (simp_all add: clear_def)

lemma consistent_init: "length_consistent (init m)"
  by (simp add: length_consistent_def init_def)

lemma consistent_write: "length_consistent s \<Longrightarrow> length_consistent (fst (write t m s))"
  by (cases t) (simp_all add: length_consistent_def write_def Let_def)

lemma consistent_do_call: "length_consistent s \<Longrightarrow> length_consistent (fst (do_call c s))"
  by (cases c)
     (simp_all add: consistent_write, simp_all add: length_consistent_def interrupt_fields restore_fields clear_fields)

lemma consistent_run: "length_consistent s \<Longrightarrow> length_consistent (fst (run cs (s, T)))"
  by (induction cs arbitrary: s T) (simp_all add: consistent_do_call)

lemma restore_output_consistent:
  "length_consistent s \<Longrightarrow> snd (restore s) = (if last_text s = [] then [] else CR # last_text s)"
  by (simp add: restore_def length_consistent_def)

lemma rstrip_append_spaces: "set ys \<subseteq> {SP} \<Longrightarrow> rstrip (xs @ ys) = rstrip xs"
proof -
  assume a: "set ys \<subseteq> {SP}"
  have "dropWhile (\<lambda>c. c = SP) (rev ys @ rev xs) = dropWhile (\<lambda>c. c = SP) (rev xs)"
    using a by (intro dropWhile_append2) auto
  then show ?thesis by (simp add: rstrip_def)
qed

lemma rstrip_decomp: "\<exists>ys. xs = rstrip xs @ ys \<and> set ys \<subseteq> {SP}"
proof -
  let ?P = "\<lambda>c. c = SP"
  have "xs = rev (takeWhile ?P (rev xs) @ dropWhile ?P (rev xs))"
    by (simp only: takeWhile_dropWhile_id rev_rev_ident)
  then have "xs = rstrip xs @ rev (takeWhile ?P (rev xs))"
    by (simp only: rev_append rstrip_def)
  moreover have "set (rev (takeWhile ?P (rev xs))) \<subseteq> {SP}"
    using set_takeWhileD [of _ ?P "rev xs"] by auto
  ultimately show ?thesis by blast
qed

lemma length_rstrip_le: "length (rstrip xs) \<le> length xs"
  by (simp add: rstrip_def) (metis length_dropWhile_le length_rev)

lemma drop_spaces_of_rstrip_eq:
  assumes "rstrip L = rstrip t" and "length t \<le> n"
  shows "set (drop n L) \<subseteq> {SP}"
proof -
  obtain ys where L: "L = rstrip L @ ys" and ys: "set ys \<subseteq> {SP}"
    using rstrip_decomp by blast
  have "length (rstrip L) \<le> n" using assms length_rstrip_le [of t] by simp
  then have "drop n L = drop (n - length (rstrip L)) ys"
    using L by (metis drop_all drop_append append_Nil)
  then show ?thesis using ys set_drop_subset [of "n - length (rstrip L)" ys] by auto
qed

lemma line_feed_only_CR: "line (feed [CR] T) = line T"
  using line_feed_CR [of "[]" T] by simp

lemma line_after_interrupt:
  "line (feed (snd (interrupt s)) T) =
     (if active s then spaces (last_length s) @ drop (last_length s) (line T) else line T)"
proof (cases "active s")
  case True
  have "feed (snd (interrupt s)) T = feed [CR] (feed (CR # spaces (last_length s)) T)"
    using True by (simp add: interrupt_def feed_append [symmetric])
  then show ?thesis
    using True line_feed_CR [OF CR_notin_spaces, of "last_length s" T]
    by (simp add: line_feed_only_CR length_spaces)
next
  case False
  then show ?thesis by (simp add: interrupt_def line_feed_only_CR)
qed

lemma line_after_restore:
  assumes "CR \<notin> set (last_text s)"
  shows "line (feed (snd (restore s)) T) =
     (if last_text s = [] then line T
      else (last_text s @ spaces (last_length s - length (last_text s))) @
           drop (max (length (last_text s)) (last_length s)) (line T))"
proof (cases "last_text s = []")
  case True
  then show ?thesis by (simp add: restore_def feed_Nil)
next
  case False
  let ?w = "last_text s @ spaces (last_length s - length (last_text s))"
  have o: "snd (restore s) = CR # ?w" using False by (simp add: restore_def spaces_def)
  have c: "CR \<notin> set ?w" using assms CR_notin_spaces by simp
  have l: "length ?w = max (length (last_text s)) (last_length s)"
    by (simp add: length_spaces)
  show ?thesis using False line_feed_CR [OF c, of T] by (simp only: o l if_False)
qed

lemma CR_notin_write_text: "CR \<notin> set t \<Longrightarrow> CR \<notin> set (write_text w t)"
  by (auto simp: write_text_def Let_def replace_newlines_def CR_def SP_def dest: in_set_takeD)

lemma line_after_write:
  assumes "CR \<notin> set t"
  shows "line (feed (snd (write (Some t) m s)) T) =
     (write_text (write_width s m) t @
      spaces (last_length s - length (write_text (write_width s m) t))) @
     drop (max (length (write_text (write_width s m) t)) (last_length s)) (line T)"
proof -
  let ?t = "write_text (write_width s m) t"
  let ?w = "?t @ spaces (last_length s - length ?t)"
  have o: "snd (write (Some t) m s) = CR # ?w" by (simp add: write_output)
  have c: "CR \<notin> set ?w" using CR_notin_write_text [OF assms] CR_notin_spaces by simp
  have l: "length ?w = max (length ?t) (last_length s)" by (simp add: length_spaces)
  show ?thesis using line_feed_CR [OF c, of T] by (simp only: o l)
qed

lemma line_after_clear:
  "line (feed (snd (clear s)) T) = spaces (last_length s) @ drop (last_length s) (line T)"
proof -
  have "feed (snd (clear s)) T = feed [CR] (feed (CR # spaces (last_length s)) T)"
    by (simp add: clear_def feed_append [symmetric])
  then show ?thesis
    using line_feed_CR [OF CR_notin_spaces, of "last_length s" T]
    by (simp add: line_feed_only_CR length_spaces)
qed

lemma rstrip_spaces: "set xs \<subseteq> {SP} \<Longrightarrow> rstrip xs = []"
  using rstrip_append_spaces [of xs "[]"] by (simp add: rstrip_def)

lemma rstrip_Nil_spaces: "rstrip xs = [] \<Longrightarrow> set xs \<subseteq> {SP}"
  using rstrip_decomp [of xs] by auto

lemma beyond_spaces:
  assumes "line_shows_status s T" and "last_length s \<le> k"
  shows "set (drop k (line T)) \<subseteq> {SP}"
proof (cases "active s")
  case True
  with assms have "rstrip (line T) = rstrip (last_text s)" "length (last_text s) \<le> k"
    by (simp_all add: line_shows_status_def visible_def length_consistent_def)
  then show ?thesis by (rule drop_spaces_of_rstrip_eq)
next
  case False
  with assms have "rstrip (line T) = []" by (simp add: line_shows_status_def visible_def)
  then have "set (line T) \<subseteq> {SP}" by (rule rstrip_Nil_spaces)
  then show ?thesis using set_drop_subset [of k "line T"] by blast
qed

lemma shows_do_call:
  assumes "line_shows_status s T" and "printable_call c"
  shows "line_shows_status (fst (do_call c s)) (feed (snd (do_call c s)) T)"
proof -
  from assms(1) have lc: "length_consistent s" and cr: "CR \<notin> set (last_text s)"
    by (simp_all add: line_shows_status_def)
  show ?thesis
  proof (cases c)
    case (Write tx m)
    show ?thesis
    proof (cases tx)
      case None
      then show ?thesis using Write assms(1) by (simp add: write_def feed_Nil)
    next
      case (Some t)
      let ?t = "write_text (write_width s m) t"
      from assms(2) Write Some have p: "CR \<notin> set t" by (simp add: printable_call_def)
      have "set (spaces (last_length s - length ?t) @ drop (max (length ?t) (last_length s)) (line T)) \<subseteq> {SP}"
        using beyond_spaces [OF assms(1), of "max (length ?t) (last_length s)"]
        by (auto simp: spaces_def)
      then have "rstrip (?t @ (spaces (last_length s - length ?t) @ drop (max (length ?t) (last_length s)) (line T))) = rstrip ?t"
        by (rule rstrip_append_spaces)
      then show ?thesis
        using Write Some CR_notin_write_text [OF p]
        by (simp add: line_shows_status_def visible_def line_after_write [OF p] write_fields
            length_consistent_def)
    qed
  next
    case Interrupt
    have "set (line (feed (snd (interrupt s)) T)) \<subseteq> {SP}"
    proof (cases "active s")
      case True
      then show ?thesis
        using beyond_spaces [OF assms(1), of "last_length s"]
        by (auto simp: line_after_interrupt spaces_def)
    next
      case False
      then show ?thesis using beyond_spaces [OF assms(1), of 0] assms(1)
        by (simp add: line_after_interrupt line_shows_status_def visible_def rstrip_Nil_spaces)
    qed
    then show ?thesis using Interrupt lc cr
      by (simp add: line_shows_status_def visible_def rstrip_spaces interrupt_fields length_consistent_def)
  next
    case Restore
    show ?thesis
    proof (cases "last_text s = []")
      case True
      then show ?thesis using Restore assms(1) by (simp add: restore_def feed_Nil)
    next
      case False
      have "set (spaces (last_length s - length (last_text s)) @
                 drop (max (length (last_text s)) (last_length s)) (line T)) \<subseteq> {SP}"
        using beyond_spaces [OF assms(1), of "max (length (last_text s)) (last_length s)"]
        by (auto simp: spaces_def)
      then have "rstrip (last_text s @ (spaces (last_length s - length (last_text s)) @
                 drop (max (length (last_text s)) (last_length s)) (line T))) = rstrip (last_text s)"
        by (rule rstrip_append_spaces)
      then show ?thesis using Restore False lc cr
        by (simp add: line_shows_status_def visible_def line_after_restore [OF cr] restore_fields
            length_consistent_def)
    qed
  next
    case Clear
    have "set (line (feed (snd (clear s)) T)) \<subseteq> {SP}"
      using beyond_spaces [OF assms(1), of "last_length s"]
      by (auto simp: line_after_clear spaces_def)
    then show ?thesis using Clear
      by (simp add: line_shows_status_def visible_def rstrip_spaces clear_fields length_consistent_def)
  qed
qed





section \<open>Facts about the log handler, the formatter and the update handler\<close>

lemma emit_unfold:
  "emit super_emit r w =
     (fst (super_emit r (after_call interrupt w)),
      after_call restore (snd (super_emit r (after_call interrupt w))))"
  by (simp add: emit_def then_do_def try_finally_def display_call_def split: prod.splits sum.splits)

lemma try_except_two:
  "try_except (map_sum id f r) [(is_TypeError_or_ValueError, na), (is_Exception, err)] =
     Inr (case r of Inr x \<Rightarrow> f x
          | Inl e \<Rightarrow> if e = TypeError \<or> e = ValueError then na else err)"
  by (cases r) (simp_all add: is_TypeError_or_ValueError_def is_Exception_def)

lemma safe_float_eq:
  "safe_float fmt v =
     Inr (case float_of v of Inr x \<Rightarrow> fmt 8 3 x
          | Inl e \<Rightarrow> if e = TypeError \<or> e = ValueError then ''   n/a '' else ''   err '')"
  by (simp add: safe_float_def try_except_two)

lemma angles_loop_eq:
  "angles_loop fmt update idxs angles =
     Inr (angles @
          map (\<lambda>idx. case float_of (getattr update (''Angle'' @ decimal idx) py_None) of
                       Inr x \<Rightarrow> fmt 6 2 x
                     | Inl e \<Rightarrow> if e = TypeError \<or> e = ValueError then ''  n/a'' else ''  err'')
              (filter (\<lambda>idx. hasattr update (''Angle'' @ decimal idx)) idxs))"
  by (induction idxs arbitrary: angles)
     (simp_all add: Let_def try_except_two bind_exc_def)

lemma LF_notin_replace: "LF \<notin> set (replace_newlines xs)"
  by (auto simp: replace_newlines_def LF_def SP_def)

lemma format_status_shape:
  "\<exists>s. format_status fmt self update dt uptime = Inr (take 512 (replace_newlines s))"
  unfolding format_status_def Let_def safe_float_eq angles_loop_eq bind_exc_def sum.case
  by (rule exI, rule refl)

lemma format_status_all_absent:
  "format_status fmt
     \<lparr>update_count = n, last_button_state = b, last_receive_time = r, avg_period = None,
      start_time = st\<rparr>
     Map.empty None uptime =
   Inr (take 512 (replace_newlines
     (''#'' @ format_06d n @
      '' | ts=         - | XYZ=(   n/a ,    n/a ,    n/a ) | ABC=(   n/a ,    n/a ,    n/a ) | Angles=(n/a) | Buttons=- | dt=   ---  | avg=--.-Hz | uptime='' @
      fmt 6 1 uptime @ ''s'')))"
proof -
  have a: "angles_loop fmt Map.empty [1..<8] [] = Inr []"
    by (simp add: angles_loop_eq hasattr_def)
  have f: "safe_float fmt (getattr Map.empty name py_None) = Inr ''   n/a ''" for name
    by (simp add: safe_float_eq getattr_def py_None_def)
  have t: "rjust 10 (str_of (getattr Map.empty ''TimeStamp'' py_dash)) = ''         -''"
    by (simp add: rjust_def getattr_def py_dash_def spaces_def SP_def eval_nat_numeral)
  have b: "is_none (getattr Map.empty ''Buttons'' py_None)"
    by (simp add: getattr_def py_None_def)
  show ?thesis
    unfolding format_status_def Let_def a f t bind_exc_def sum.case
    by (simp add: b)
qed

lemma format_status_eq:
  "format_status fmt self update dt uptime =
     Inr (take 512 (replace_newlines
       (let field = (\<lambda>name. case float_of (getattr update name py_None) of
                        Inr x \<Rightarrow> fmt 8 3 x
                      | Inl e \<Rightarrow> if e = TypeError \<or> e = ValueError then ''   n/a '' else ''   err '');
            angles = map (\<lambda>idx. case float_of (getattr update (''Angle'' @ decimal idx) py_None) of
                            Inr x \<Rightarrow> fmt 6 2 x
                          | Inl e \<Rightarrow> if e = TypeError \<or> e = ValueError then ''  n/a'' else ''  err'')
                       (filter (\<lambda>idx. hasattr update (''Angle'' @ decimal idx)) [1..<8])
        in ''#'' @ format_06d (update_count self) @
           '' | ts='' @ rjust 10 (str_of (getattr update ''TimeStamp'' py_dash)) @ '' | '' @
           ''XYZ=('' @ field ''X'' @ '', '' @ field ''Y'' @ '', '' @ field ''Z'' @ '') | '' @
           ''ABC=('' @ field ''A'' @ '', '' @ field ''B'' @ '', '' @ field ''C'' @ '') | '' @
           ''Angles=('' @ (if angles \<noteq> [] then join '', '' angles else ''n/a'') @
           '') | Buttons='' @
           (if \<not> is_none (getattr update ''Buttons'' py_None)
            then str_of (getattr update ''Buttons'' py_None) else ''-'') @
           '' | dt='' @
           (case dt of Some d \<Rightarrow> fmt 6 1 (d * 1000) @ ''ms'' | None \<Rightarrow> ''   --- '') @ '' | '' @
           ''avg='' @
           (case avg_period self of
              Some a \<Rightarrow> if a \<noteq> 0 \<and> a > 0 then fmt 6 2 (1 / a) @ ''Hz'' else ''--.-Hz''
            | None \<Rightarrow> ''--.-Hz'') @
           '' | uptime='' @ fmt 6 1 uptime @ ''s'')))"
proof -
  have a: "angles_loop fmt update [1..<8] [] =
        Inr (map (\<lambda>idx. case float_of (getattr update (''Angle'' @ decimal idx) py_None) of
                          Inr x \<Rightarrow> fmt 6 2 x
                        | Inl e \<Rightarrow> if e = TypeError \<or> e = ValueError then ''  n/a'' else ''  err'')
                 (filter (\<lambda>idx. hasattr update (''Angle'' @ decimal idx)) [1..<8]))"
    by (simp only: angles_loop_eq append_Nil)
  show ?thesis
    unfolding format_status_def Let_def safe_float_eq bind_exc_def a sum.case
    by (rule refl)
qed


lemma decimal_digit: "n < 10 \<Longrightarrow> decimal n = [''0123456789'' ! n]"
  by (simp add: decimal.simps)

lemma handler_avg_period:
  "avg_period (fst (snd (handler fmt update now self))) =
     (case last_receive_time self of
        None \<Rightarrow> avg_period self
      | Some t \<Rightarrow> Some (case avg_period self of
                         None \<Rightarrow> now - t
                       | Some p \<Rightarrow> 0.9 * p + 0.1 * (now - t)))"
  by (simp add: handler_def Let_def split: option.splits sum.splits)

lemma handler_last_receive_time:
  "last_receive_time (fst (snd (handler fmt update now self))) = Some now"
  by (simp add: handler_def Let_def split: option.splits sum.splits)

lemma handler_update_count:
  "update_count (fst (snd (handler fmt update now self))) = update_count self + 1"
  by (simp add: handler_def Let_def split: option.splits sum.splits)

lemma handler_periods_three:
  assumes "last_receive_time self = Some t"
  shows "handler_periods fmt [(u1, t + 1), (u2, t + 2), (u3, t + 3)] self =
     (case avg_period self of
        None \<Rightarrow> [Some 1, Some 1, Some 1]
      | Some p \<Rightarrow> [Some (0.9 * p + 0.1), Some (0.9 * (0.9 * p + 0.1) + 0.1),
                   Some (0.9 * (0.9 * (0.9 * p + 0.1) + 0.1) + 0.1)])"
  using assms
  by (simp add: handler_avg_period handler_last_receive_time split: option.splits)

section \<open>The claims\<close>

subsection \<open>C1: what a write records and emits\<close>

text \<open>
  C1 as stated, that after a write the recorded length is the larger of the new text's
  length and the length recorded before, fails: after \<^verbatim>\<open>write("hello")\<close>, the call
  \<^verbatim>\<open>write("hi")\<close> at width 80 records the length 2, not 5.
\<close>

theorem write_length_is_max_counterexample:
  "last_length (fst (write (Some ''hi'') (Some 80) (fst (write (Some ''hello'') (Some 80) (init (Some 80))))))
     \<noteq> max (length (write_text 80 ''hi''))
            (last_length (fst (write (Some ''hello'') (Some 80) (init (Some 80)))))"
  by (simp add: write_def write_text_def write_width_def write_max_len_def
      get_terminal_columns_def init_def replace_newlines_def Let_def LF_def SP_def)

text \<open>
  C1, amended: for every state and every text that is not \<^verbatim>\<open>None\<close>, a write records the
  new text (newlines replaced, then truncated) and its length, whatever the length
  recorded before; it emits a carriage return, the new text, and as many spaces as the
  length recorded before exceeds the new length; and on a line that showed the
  status before, exactly the new text is visible after.
\<close>

theorem write_length_and_output:
  "last_length (fst (write (Some t) m s)) = length (write_text (write_width s m) t)
   \<and> last_text (fst (write (Some t) m s)) = write_text (write_width s m) t
   \<and> snd (write (Some t) m s) =
       [CR] @ write_text (write_width s m) t @
       spaces (last_length s - length (write_text (write_width s m) t))
   \<and> (CR \<notin> set t \<and> line_shows_status s T \<longrightarrow>
        visible (feed (snd (write (Some t) m s)) T) = rstrip (write_text (write_width s m) t))"
proof (intro conjI impI)
  assume a: "CR \<notin> set t \<and> line_shows_status s T"
  then have "printable_call (Write (Some t) m)" by (simp add: printable_call_def)
  with a have "line_shows_status (fst (do_call (Write (Some t) m) s))
                 (feed (snd (do_call (Write (Some t) m) s)) T)"
    by (intro shows_do_call) simp_all
  then show "visible (feed (snd (write (Some t) m s)) T) = rstrip (write_text (write_width s m) t)"
    by (simp add: line_shows_status_def write_fields)
qed (simp_all add: write_fields write_output)

text \<open>
  The amended C1 at a concrete call: on a line showing \<^verbatim>\<open>hello\<close>, \<^verbatim>\<open>write("hi")\<close> emits
  the new text and three spaces, and only \<^verbatim>\<open>hi\<close> stays visible.
\<close>

theorem write_length_and_output_witness:
  "(CR \<notin> set ''hi''
    \<and> line_shows_status \<lparr>last_text = ''hello'', last_length = 5, active = True, last_width = 80\<rparr>
          \<lparr>line = ''hello'', col = 5\<rparr>)
   \<and> snd (write (Some ''hi'') (Some 80)
             \<lparr>last_text = ''hello'', last_length = 5, active = True, last_width = 80\<rparr>)
        = [CR] @ ''hi'' @ ''   ''
   \<and> last_length (fst (write (Some ''hi'') (Some 80)
             \<lparr>last_text = ''hello'', last_length = 5, active = True, last_width = 80\<rparr>)) = 2
   \<and> visible (feed (snd (write (Some ''hi'') (Some 80)
             \<lparr>last_text = ''hello'', last_length = 5, active = True, last_width = 80\<rparr>))
             \<lparr>line = ''hello'', col = 5\<rparr>) = ''hi''"
proof -
  let ?s = "\<lparr>last_text = ''hello'', last_length = 5, active = True, last_width = 80\<rparr>"
  let ?T = "\<lparr>line = ''hello'', col = 5\<rparr>"
  have h: "CR \<notin> set ''hi'' \<and> line_shows_status ?s ?T"
    by (simp add: line_shows_status_def length_consistent_def visible_def rstrip_def CR_def SP_def)
  have w: "write_text (write_width ?s (Some 80)) ''hi'' = ''hi''"
    by (simp add: write_text_def write_width_def write_max_len_def get_terminal_columns_def
        replace_newlines_def Let_def LF_def)
  have r: "rstrip ''hi'' = ''hi''" by (simp add: rstrip_def SP_def)
  have p: "spaces (5 - length ''hi'') = ''   ''" by (simp add: spaces_def SP_def eval_nat_numeral)
  have l: "last_length ?s = 5" by simp
  note th = write_length_and_output [of "''hi''" "Some 80" ?s ?T, unfolded w r l p]
  from th have c1: "last_length (fst (write (Some ''hi'') (Some 80) ?s)) = 2" by simp
  from th have c3: "snd (write (Some ''hi'') (Some 80) ?s) = [CR] @ ''hi'' @ ''   ''" by blast
  from th h have c4: "visible (feed (snd (write (Some ''hi'') (Some 80) ?s)) ?T) = ''hi''" by blast
  show ?thesis using h c1 c3 c4 by blast
qed

subsection \<open>C3: truncation to the terminal width\<close>

text \<open>
  C3 as stated, that every text longer than the width minus one is cut to exactly that
  length, fails on narrow terminals: at a measured width of 10 a text of 15 characters
  is longer than 9 and is recorded as it is.
\<close>

theorem write_truncates_to_width_counterexample:
  "int (length ''0123456789abcde'') > 10 - 1
   \<and> int (length (last_text (fst (write (Some ''0123456789abcde'') (Some 10) (init (Some 10)))))) \<noteq> 10 - 1"
  by (simp add: write_def write_text_def write_width_def write_max_len_def
      get_terminal_columns_def init_def replace_newlines_def Let_def LF_def SP_def)

text \<open>
  C3, amended: at every measured width of at least 21, a text longer than the width
  minus one is recorded with exactly that length, as its first characters followed by
  the three-character marker \<^verbatim>\<open>...\<close>; at every measured width, a text of at most the
  width minus one characters is recorded unchanged but for the newlines replaced.
\<close>

theorem write_truncates_to_width:
  "(21 \<le> width \<and> int (length t) > width - 1 \<longrightarrow>
      int (length (last_text (fst (write (Some t) (Some width) s)))) = width - 1
      \<and> drop (nat (width - 4)) (last_text (fst (write (Some t) (Some width) s))) = ''...''
      \<and> take (nat (width - 4)) (last_text (fst (write (Some t) (Some width) s)))
          = take (nat (width - 4)) (replace_newlines t))
   \<and> (int (length t) \<le> width - 1 \<longrightarrow>
      last_text (fst (write (Some t) (Some width) s)) = replace_newlines t)"
proof (intro conjI impI)
  assume a: "21 \<le> width \<and> int (length t) > width - 1"
  then have m: "write_max_len width = width - 1" by (simp add: write_max_len_def)
  with a have g: "int (length t) > write_max_len width" by simp
  show "int (length (last_text (fst (write (Some t) (Some width) s)))) = width - 1"
    using write_text_long(1) [OF g] m by (simp add: write_fields write_width_measured)
  show "drop (nat (width - 4)) (last_text (fst (write (Some t) (Some width) s))) = ''...''"
    using write_text_long(2) [OF g] m by (simp add: write_fields write_width_measured)
  show "take (nat (width - 4)) (last_text (fst (write (Some t) (Some width) s)))
          = take (nat (width - 4)) (replace_newlines t)"
    using write_text_long(3) [OF g] m by (simp add: write_fields write_width_measured)
next
  assume "int (length t) \<le> width - 1"
  then have "int (length t) \<le> write_max_len width" by (simp add: write_max_len_def)
  then show "last_text (fst (write (Some t) (Some width) s)) = replace_newlines t"
    by (simp add: write_fields write_width_measured write_text_short)
qed

text \<open>
  The amended C3 at width 40: a text of 100 characters is cut to 39, ending with the
  marker, and a text of two characters is kept.
\<close>

theorem write_truncates_to_width_witness:
  "int (length (last_text (fst (write (Some (replicate 100 CHR ''x'')) (Some 40) (init None))))) = 39
   \<and> drop 36 (last_text (fst (write (Some (replicate 100 CHR ''x'')) (Some 40) (init None)))) = ''...''
   \<and> last_text (fst (write (Some ''ok'') (Some 40) (init None))) = ''ok''"
proof -
  have a: "int (length (replace_newlines ''ok'')) \<le> 40 - 1" by (simp add: length_replace_newlines)
  have b: "replace_newlines ''ok'' = ''ok''" by (simp add: replace_newlines_def LF_def)
  show ?thesis
    using write_truncates_to_width [of 40 "replicate 100 CHR ''x''" "init None"]
      write_truncates_to_width [of 40 "''ok''" "init None"] b
    by simp
qed

subsection \<open>C10: the minimum line budget\<close>

text \<open>
  C10: the truncation limit of a write is the larger of 20 and the width minus one. So
  at every measured width below 21 a text of more than 20 characters is recorded with
  exactly 20 characters, its first 17 followed by the marker \<^verbatim>\<open>...\<close>; and a text of at
  most 20 characters is recorded untruncated whatever the width, measured or fallen
  back to.
\<close>

theorem write_minimum_budget:
  "write_max_len width = max 20 (width - 1)
   \<and> (width < 21 \<and> length t > 20 \<longrightarrow>
        length (last_text (fst (write (Some t) (Some width) s))) = 20
        \<and> drop 17 (last_text (fst (write (Some t) (Some width) s))) = ''...''
        \<and> take 17 (last_text (fst (write (Some t) (Some width) s))) = take 17 (replace_newlines t))
   \<and> (length t \<le> 20 \<longrightarrow> last_text (fst (write (Some t) m s)) = replace_newlines t)"
proof (intro conjI impI)
  show "write_max_len width = max 20 (width - 1)" by (simp add: write_max_len_def)
next
  assume a: "width < 21 \<and> length t > 20"
  then have m: "write_max_len width = 20" by (simp add: write_max_len_def)
  with a have g: "int (length t) > write_max_len width" by simp
  show "length (last_text (fst (write (Some t) (Some width) s))) = 20"
    using write_text_long(1) [OF g] m by (simp add: write_fields write_width_measured)
  show "drop 17 (last_text (fst (write (Some t) (Some width) s))) = ''...''"
    using write_text_long(2) [OF g] m by (simp add: write_fields write_width_measured)
  show "take 17 (last_text (fst (write (Some t) (Some width) s))) = take 17 (replace_newlines t)"
    using write_text_long(3) [OF g] m by (simp add: write_fields write_width_measured)
next
  assume "length t \<le> 20"
  then have "int (length t) \<le> write_max_len (write_width s m)" by (simp add: write_max_len_def)
  then show "last_text (fst (write (Some t) m s)) = replace_newlines t"
    by (simp add: write_fields write_text_short)
qed

text \<open>
  C10 at widths 10 and 5: a text of 36 characters is cut to 20 and one of 20 characters
  is kept.
\<close>

theorem write_minimum_budget_witness:
  "length (last_text (fst (write (Some ''0123456789abcdefghijklmnopqrstuvwxyz'') (Some 10) (init None)))) = 20
   \<and> last_text (fst (write (Some ''0123456789abcdefghijklmnopqrstuvwxyz'') (Some 10) (init None)))
       = ''0123456789abcdefg...''
   \<and> last_text (fst (write (Some ''0123456789abcdefghij'') (Some 5) (init None))) = ''0123456789abcdefghij''"
proof -
  have b: "replace_newlines ''0123456789abcdefghij'' = ''0123456789abcdefghij''"
          "replace_newlines ''0123456789abcdefghijklmnopqrstuvwxyz'' = ''0123456789abcdefghijklmnopqrstuvwxyz''"
    by (simp_all add: replace_newlines_def LF_def)
  have c: "xs = take 17 xs @ drop 17 xs" for xs :: string by simp
  show ?thesis
    using write_minimum_budget [of 10 "''0123456789abcdefghijklmnopqrstuvwxyz''" "init None" "Some 10"]
      write_minimum_budget [of 5 "''0123456789abcdefghij''" "init None" "Some 5"] b
      c [of "last_text (fst (write (Some ''0123456789abcdefghijklmnopqrstuvwxyz'') (Some 10) (init None)))"]
    by simp
qed

subsection \<open>C9: the recorded length is the length of the recorded text\<close>

text \<open>
  C9: the recorded length equals the length of the recorded text in the initial state
  (empty text, length zero), and each of write, interrupt, restore and clear keeps it
  so; hence it holds after every sequence of calls, and there the test of restore for
  padding, that the text is shorter than the recorded length, is false: restore emits
  the carriage return and the text, or nothing when the text is empty.
\<close>

theorem displayed_length_invariant:
  "last_text (init m0) = [] \<and> last_length (init m0) = 0 \<and> length_consistent (init m0)
   \<and> (length_consistent s \<longrightarrow>
        length_consistent (fst (write t m s)) \<and> length_consistent (fst (interrupt s))
        \<and> length_consistent (fst (restore s)) \<and> length_consistent (fst (clear s)))
   \<and> length_consistent (fst (run cs (init m0, T)))
   \<and> \<not> length (last_text (fst (run cs (init m0, T)))) < last_length (fst (run cs (init m0, T)))
   \<and> snd (restore (fst (run cs (init m0, T)))) =
        (if last_text (fst (run cs (init m0, T))) = [] then []
         else CR # last_text (fst (run cs (init m0, T))))"
proof -
  have i: "last_text (init m0) = [] \<and> last_length (init m0) = 0"
    by (simp add: init_def)
  have r: "length_consistent (fst (run cs (init m0, T)))"
    by (rule consistent_run [OF consistent_init])
  have p: "length_consistent s \<longrightarrow>
        length_consistent (fst (write t m s)) \<and> length_consistent (fst (interrupt s))
        \<and> length_consistent (fst (restore s)) \<and> length_consistent (fst (clear s))"
    using consistent_do_call [of s "Write t m"] consistent_do_call [of s Interrupt]
      consistent_do_call [of s Restore] consistent_do_call [of s Clear]
    by simp
  from r have n: "\<not> length (last_text (fst (run cs (init m0, T)))) < last_length (fst (run cs (init m0, T)))"
    by (simp add: length_consistent_def)
  show ?thesis
    using i consistent_init [of m0] p r n restore_output_consistent [OF r] by blast
qed

text \<open>
  C9 after \<^verbatim>\<open>write("hello")\<close>, \<^verbatim>\<open>write("hi")\<close> and an interrupt: the recorded length is 2
  and restore emits the text with no padding.
\<close>

theorem displayed_length_invariant_witness:
  "length_consistent (init None)
   \<and> length_consistent (fst (write (Some ''abc'') (Some 80) (init None)))
   \<and> length_consistent (fst (clear (init None)))
   \<and> snd (restore (fst (run [Write (Some ''hello'') (Some 80), Write (Some ''hi'') None, Interrupt]
                             (init None, \<lparr>line = [], col = 0\<rparr>))))
        = CR # ''hi''"
proof -
  let ?cs = "[Write (Some ''hello'') (Some 80), Write (Some ''hi'') None, Interrupt]"
  let ?T = "\<lparr>line = [], col = 0\<rparr>"
  have t: "last_text (fst (run ?cs (init None, ?T))) = ''hi''"
    by (simp add: write_def write_text_def write_width_def write_max_len_def
        get_terminal_columns_def init_def replace_newlines_def Let_def LF_def interrupt_def)
  note th = displayed_length_invariant [of None "init None" "Some ''abc''" "Some 80" ?cs ?T,
      unfolded t]
  from th have h: "length_consistent (init None)" by blast
  from th h have a: "length_consistent (fst (write (Some ''abc'') (Some 80) (init None)))"
    and b: "length_consistent (fst (clear (init None)))" by blast+
  from th have c: "snd (restore (fst (run ?cs (init None, ?T)))) = CR # ''hi''" by simp
  show ?thesis using h a b c by blast
qed

subsection \<open>C5: interrupt, then restore\<close>




subsection \<open>C4: the status-aware log handler\<close>

text \<open>
  C4: whatever the underlying emission does, \<^verbatim>\<open>emit\<close> first runs interrupt (its output
  is appended to the stream and the status line is inactive when the emission starts),
  then the emission, then restore in the world that the emission has left, and hands
  on the result of the emission; in particular, when the emission raises, restore has
  still run and the same exception is raised after it.
\<close>

theorem emit_interrupts_then_restores:
  "emit super_emit r w =
     (fst (super_emit r (after_call interrupt w)),
      after_call restore (snd (super_emit r (after_call interrupt w))))
   \<and> (fst (super_emit r (after_call interrupt w)) = Inl e \<longrightarrow>
        emit super_emit r w =
          (Inl e, after_call restore (snd (super_emit r (after_call interrupt w)))))
   \<and> stdout (after_call interrupt w) = stdout w @ snd (interrupt (display w))
   \<and> \<not> active (display (after_call interrupt w))
   \<and> stdout (snd (emit super_emit r w)) =
        stdout (snd (super_emit r (after_call interrupt w))) @
        snd (restore (display (snd (super_emit r (after_call interrupt w)))))
   \<and> display (snd (emit super_emit r w)) =
        fst (restore (display (snd (super_emit r (after_call interrupt w)))))"
  by (simp add: emit_unfold after_call_def interrupt_fields)

text \<open>
  C4 for an emission that writes \<^verbatim>\<open>log\<close> and raises: the status text is erased before,
  and printed again after, and the exception comes out.
\<close>

theorem emit_interrupts_then_restores_witness:
  "emit (\<lambda>r w. (Inl ValueError, w\<lparr>stdout := stdout w @ r\<rparr>)) ''log''
        \<lparr>display = \<lparr>last_text = ''abc'', last_length = 3, active = True, last_width = 80\<rparr>,
         stdout = [CR] @ ''abc''\<rparr>
   = (Inl ValueError,
      \<lparr>display = \<lparr>last_text = ''abc'', last_length = 3, active = True, last_width = 80\<rparr>,
       stdout = [CR] @ ''abc'' @ [CR] @ ''   '' @ [CR] @ ''log'' @ [CR] @ ''abc''\<rparr>)"
  using emit_interrupts_then_restores
    [of "\<lambda>r w. (Inl ValueError, w\<lparr>stdout := stdout w @ r\<rparr>)" "''log''"
        "\<lparr>display = \<lparr>last_text = ''abc'', last_length = 3, active = True, last_width = 80\<rparr>,
          stdout = [CR] @ ''abc''\<rparr>" ValueError]
  by (simp add: after_call_def interrupt_def restore_def spaces_def SP_def eval_nat_numeral)

subsection \<open>C7: formatting the status never raises\<close>

text \<open>
  C7: for every payload, whatever attributes it lacks and whatever their conversion to
  a float raises, \<^verbatim>\<open>_format_status\<close> does not raise and returns the complete status
  line, cut to 512 characters: the count, the time stamp, the six position and
  orientation fields, the joint angles, the buttons, the latency, the rate and the
  uptime, each in its place. In that line a position or orientation field is its
  formatted number when the conversion succeeds, the seven-character placeholder for
  "not available" when the conversion raises \<^verbatim>\<open>TypeError\<close> or \<^verbatim>\<open>ValueError\<close> (as it does
  for an absent field, read as \<^verbatim>\<open>None\<close>), and the seven-character placeholder for
  "error" when it raises anything else; a joint angle that is present is rendered
  likewise with five-character placeholders, and one that is absent is left out. The
  line has at most 512 characters and no newline. For a payload with no attribute at
  all every field is a placeholder.
\<close>

theorem format_status_never_raises:
  "format_status fmt self update dt uptime =
     Inr (take 512 (replace_newlines
       (let field = (\<lambda>name. case float_of (getattr update name py_None) of
                        Inr x \<Rightarrow> fmt 8 3 x
                      | Inl e \<Rightarrow> if e = TypeError \<or> e = ValueError then ''   n/a '' else ''   err '');
            angles = map (\<lambda>idx. case float_of (getattr update (''Angle'' @ decimal idx) py_None) of
                            Inr x \<Rightarrow> fmt 6 2 x
                          | Inl e \<Rightarrow> if e = TypeError \<or> e = ValueError then ''  n/a'' else ''  err'')
                       (filter (\<lambda>idx. hasattr update (''Angle'' @ decimal idx)) [1..<8])
        in ''#'' @ format_06d (update_count self) @
           '' | ts='' @ rjust 10 (str_of (getattr update ''TimeStamp'' py_dash)) @ '' | '' @
           ''XYZ=('' @ field ''X'' @ '', '' @ field ''Y'' @ '', '' @ field ''Z'' @ '') | '' @
           ''ABC=('' @ field ''A'' @ '', '' @ field ''B'' @ '', '' @ field ''C'' @ '') | '' @
           ''Angles=('' @ (if angles \<noteq> [] then join '', '' angles else ''n/a'') @
           '') | Buttons='' @
           (if \<not> is_none (getattr update ''Buttons'' py_None)
            then str_of (getattr update ''Buttons'' py_None) else ''-'') @
           '' | dt='' @
           (case dt of Some d \<Rightarrow> fmt 6 1 (d * 1000) @ ''ms'' | None \<Rightarrow> ''   --- '') @ '' | '' @
           ''avg='' @
           (case avg_period self of
              Some a \<Rightarrow> if a \<noteq> 0 \<and> a > 0 then fmt 6 2 (1 / a) @ ''Hz'' else ''--.-Hz''
            | None \<Rightarrow> ''--.-Hz'') @
           '' | uptime='' @ fmt 6 1 uptime @ ''s'')))
   \<and> (\<exists>status. format_status fmt self update dt uptime = Inr status
       \<and> length status \<le> 512 \<and> LF \<notin> set status)
   \<and> (update name = None \<longrightarrow>
        (case float_of (getattr update name py_None) of
           Inr x \<Rightarrow> fmt 8 3 x
         | Inl e \<Rightarrow> if e = TypeError \<or> e = ValueError then ''   n/a '' else ''   err '')
        = ''   n/a '')
   \<and> safe_float fmt v =
        Inr (case float_of v of
               Inr x \<Rightarrow> fmt 8 3 x
             | Inl e \<Rightarrow> if e = TypeError \<or> e = ValueError then ''   n/a '' else ''   err '')
   \<and> safe_float fmt (getattr Map.empty name py_None) = Inr ''   n/a ''
   \<and> angles_loop fmt update [1..<8] [] =
        Inr (map (\<lambda>idx. case float_of (getattr update (''Angle'' @ decimal idx) py_None) of
                          Inr x \<Rightarrow> fmt 6 2 x
                        | Inl e \<Rightarrow> if e = TypeError \<or> e = ValueError then ''  n/a'' else ''  err'')
                 (filter (\<lambda>idx. hasattr update (''Angle'' @ decimal idx)) [1..<8]))
   \<and> format_status fmt
        \<lparr>update_count = n, last_button_state = b, last_receive_time = r, avg_period = None,
         start_time = st\<rparr>
        Map.empty None uptime =
      Inr (take 512 (replace_newlines
        (''#'' @ format_06d n @
         '' | ts=         - | XYZ=(   n/a ,    n/a ,    n/a ) | ABC=(   n/a ,    n/a ,    n/a ) | Angles=(n/a) | Buttons=- | dt=   ---  | avg=--.-Hz | uptime='' @
         fmt 6 1 uptime @ ''s'')))"
proof (intro conjI impI)
  show "\<exists>status. format_status fmt self update dt uptime = Inr status
       \<and> length status \<le> 512 \<and> LF \<notin> set status"
  proof -
    obtain s where "format_status fmt self update dt uptime = Inr (take 512 (replace_newlines s))"
      using format_status_shape by blast
    moreover have "length (take 512 (replace_newlines s)) \<le> 512" by simp
    moreover have "LF \<notin> set (take 512 (replace_newlines s))"
      using LF_notin_replace [of s] in_set_takeD [of LF 512 "replace_newlines s"] by blast
    ultimately show ?thesis by blast
  qed
  show "safe_float fmt (getattr Map.empty name py_None) = Inr ''   n/a ''"
    by (simp add: safe_float_eq getattr_def py_None_def)
  show "angles_loop fmt update [1..<8] [] =
        Inr (map (\<lambda>idx. case float_of (getattr update (''Angle'' @ decimal idx) py_None) of
                          Inr x \<Rightarrow> fmt 6 2 x
                        | Inl e \<Rightarrow> if e = TypeError \<or> e = ValueError then ''  n/a'' else ''  err'')
                 (filter (\<lambda>idx. hasattr update (''Angle'' @ decimal idx)) [1..<8]))"
    by (simp only: angles_loop_eq append_Nil)
  assume "update name = None"
  then show "(case float_of (getattr update name py_None) of
           Inr x \<Rightarrow> fmt 8 3 x
         | Inl e \<Rightarrow> if e = TypeError \<or> e = ValueError then ''   n/a '' else ''   err '')
        = ''   n/a ''"
    by (simp add: getattr_def py_None_def)
qed (rule format_status_eq, rule safe_float_eq, rule format_status_all_absent)

text \<open>
  C7 for two payloads. In the first \<^verbatim>\<open>X\<close> raises an error of the driver on conversion,
  \<^verbatim>\<open>Angle3\<close> is \<^verbatim>\<open>None\<close> and the rest is absent; in the second \<^verbatim>\<open>X\<close> is a number, \<^verbatim>\<open>Y\<close>
  a text that is no number, \<^verbatim>\<open>Angle1\<close> a number and \<^verbatim>\<open>Angle2\<close> raises an error. Both
  status lines are complete, with the placeholders where the conversion fails.
\<close>

theorem format_status_never_raises_witness:
  "[''X'' \<mapsto> \<lparr>float_of = Inl OtherException, str_of = ''?'', is_none = False\<rparr>,
    ''Angle3'' \<mapsto> py_None] ''Y'' = None
   \<and> format_status (\<lambda>w p x. ''1.0'') (listener_init 0)
        [''X'' \<mapsto> \<lparr>float_of = Inl OtherException, str_of = ''?'', is_none = False\<rparr>,
         ''Angle3'' \<mapsto> py_None] None 0
      = Inr ''#000000 | ts=         - | XYZ=(   err ,    n/a ,    n/a ) | ABC=(   n/a ,    n/a ,    n/a ) | Angles=(  n/a) | Buttons=- | dt=   ---  | avg=--.-Hz | uptime=1.0s''
   \<and> format_status (\<lambda>w p x. ''1.0'') ((listener_init 0)\<lparr>update_count := 42, avg_period := Some 0.5\<rparr>)
        [''X'' \<mapsto> \<lparr>float_of = Inr 2, str_of = ''2.0'', is_none = False\<rparr>,
         ''Y'' \<mapsto> \<lparr>float_of = Inl ValueError, str_of = ''abc'', is_none = False\<rparr>,
         ''Angle1'' \<mapsto> \<lparr>float_of = Inr 2, str_of = ''2.0'', is_none = False\<rparr>,
         ''Angle2'' \<mapsto> \<lparr>float_of = Inl OtherException, str_of = ''?'', is_none = False\<rparr>,
         ''Buttons'' \<mapsto> \<lparr>float_of = Inr 0, str_of = ''0'', is_none = False\<rparr>] (Some 0.01) 0
      = Inr ''#000042 | ts=         - | XYZ=(1.0,    n/a ,    n/a ) | ABC=(   n/a ,    n/a ,    n/a ) | Angles=(1.0,   err) | Buttons=0 | dt=1.0ms | avg=1.0Hz | uptime=1.0s''
   \<and> safe_float (\<lambda>w p x. ''1.0'')
        \<lparr>float_of = Inl OtherException, str_of = ''?'', is_none = False\<rparr> = Inr ''   err ''
   \<and> safe_float (\<lambda>w p x. ''1.0'') py_None = Inr ''   n/a ''
   \<and> safe_float (\<lambda>w p x. ''1.0'') \<lparr>float_of = Inr 2, str_of = ''2.0'', is_none = False\<rparr>
        = Inr ''1.0''"
proof -
  let ?f = "\<lambda>(w::nat) (p::nat) (x::real). ''1.0''"
  let ?e = "\<lparr>float_of = Inl OtherException, str_of = ''?'', is_none = False\<rparr>"
  let ?n = "\<lparr>float_of = Inr (2::real), str_of = ''2.0'', is_none = False\<rparr>"
  let ?u = "[''X'' \<mapsto> ?e, ''Angle3'' \<mapsto> py_None]"
  let ?u2 = "[''X'' \<mapsto> ?n,
         ''Y'' \<mapsto> \<lparr>float_of = Inl ValueError, str_of = ''abc'', is_none = False\<rparr>,
         ''Angle1'' \<mapsto> ?n, ''Angle2'' \<mapsto> ?e,
         ''Buttons'' \<mapsto> \<lparr>float_of = Inr 0, str_of = ''0'', is_none = False\<rparr>]"
  let ?L2 = "(listener_init 0)\<lparr>update_count := 42, avg_period := Some 0.5\<rparr>"
  have d42: "decimal 42 = ''42''"
    by (subst decimal.simps) (simp add: decimal_digit)
  have r: "replicate 4 c = [c, c, c, c]" "replicate 5 c = [c, c, c, c, c]" for c :: char
    by (simp_all add: eval_nat_numeral)
  have z: "format_06d 0 = ''000000''" "format_06d 42 = ''000042''"
    by (simp_all add: format_06d_def d42 decimal_digit r)
  have rj: "rjust 10 ''-'' = ''         -''"
    by (simp add: rjust_def spaces_def SP_def eval_nat_numeral)
  have up: "[Suc 0..<8] = [Suc 0, 2, 3, 4, 5, 6, 7]"
    by (simp add: upt_conv_Cons eval_nat_numeral)
  have dec: "decimal (Suc 0) = ''1''" "decimal 2 = ''2''" "decimal 3 = ''3''" "decimal 4 = ''4''"
    "decimal 5 = ''5''" "decimal 6 = ''6''" "decimal 7 = ''7''"
    by (simp_all add: decimal_digit)
  note ev = Let_def getattr_def hasattr_def py_None_def py_dash_def listener_init_def
      LF_def SP_def replace_newlines_def z rj up dec
  have h: "?u ''Y'' = None" by simp
  have a: "format_status ?f (listener_init 0) ?u None 0
      = Inr ''#000000 | ts=         - | XYZ=(   err ,    n/a ,    n/a ) | ABC=(   n/a ,    n/a ,    n/a ) | Angles=(  n/a) | Buttons=- | dt=   ---  | avg=--.-Hz | uptime=1.0s''"
    using format_status_never_raises [of ?f "listener_init 0" ?u None 0 "''Y''" ?e, THEN conjunct1]
    by (simp add: ev)
  have a2: "format_status ?f ?L2 ?u2 (Some 0.01) 0
      = Inr ''#000042 | ts=         - | XYZ=(1.0,    n/a ,    n/a ) | ABC=(   n/a ,    n/a ,    n/a ) | Angles=(1.0,   err) | Buttons=0 | dt=1.0ms | avg=1.0Hz | uptime=1.0s''"
    using format_status_never_raises [of ?f ?L2 ?u2 "Some 0.01" 0 "''Z''" ?e, THEN conjunct1]
    by (simp add: ev)
  have b: "safe_float ?f ?e = Inr ''   err ''"
    using format_status_never_raises [of ?f "listener_init 0" ?u None 0 "''Y''" ?e] by simp
  have c: "safe_float ?f py_None = Inr ''   n/a ''"
    using format_status_never_raises [of ?f "listener_init 0" ?u None 0 "''Y''" py_None]
    by (simp add: py_None_def)
  have d: "safe_float ?f ?n = Inr ''1.0''"
    using format_status_never_raises [of ?f "listener_init 0" ?u None 0 "''Y''" ?n] by simp
  show ?thesis using h a a2 b c d by blast
qed

subsection \<open>C8: the smoothed period\<close>

text \<open>
  C8: in every call of the handler after the first, that is, with a previous receive
  time \<open>t\<close>, and with \<open>dt = now - t\<close>, the smoothed period becomes \<open>dt\<close> when it was absent
  and \<open>0.9\<close> times its value plus \<open>0.1\<close> times \<open>dt\<close> otherwise. For three calls one second
  apart (the \<open>dt\<close> sequence 1, 1, 1) the period is 1 after each call when it was absent
  before; from a value \<open>p0\<close> it moves towards 1 without passing it, its distance to 1
  shrinking by the factor 0.9 at each call.
\<close>

theorem handler_smoothed_period:
  "(last_receive_time self = Some t \<longrightarrow>
      avg_period (fst (snd (handler fmt update now self))) =
        Some (case avg_period self of
                None \<Rightarrow> now - t
              | Some p \<Rightarrow> 0.9 * p + 0.1 * (now - t)))
   \<and> last_receive_time (fst (snd (handler fmt update now self))) = Some now
   \<and> (last_receive_time self = Some t \<and> avg_period self = None \<longrightarrow>
        handler_periods fmt [(u1, t + 1), (u2, t + 2), (u3, t + 3)] self
          = [Some 1, Some 1, Some 1])
   \<and> (last_receive_time self = Some t \<and> avg_period self = Some p0 \<longrightarrow>
        (\<exists>p1 p2 p3.
           handler_periods fmt [(u1, t + 1), (u2, t + 2), (u3, t + 3)] self
             = [Some p1, Some p2, Some p3]
           \<and> \<bar>p1 - 1\<bar> = 0.9 * \<bar>p0 - 1\<bar> \<and> \<bar>p2 - 1\<bar> = 0.9 * \<bar>p1 - 1\<bar>
           \<and> \<bar>p3 - 1\<bar> = 0.9 * \<bar>p2 - 1\<bar>
           \<and> (p0 \<le> 1 \<longrightarrow> p0 \<le> p1 \<and> p1 \<le> p2 \<and> p2 \<le> p3 \<and> p3 \<le> 1)
           \<and> (1 \<le> p0 \<longrightarrow> p0 \<ge> p1 \<and> p1 \<ge> p2 \<and> p2 \<ge> p3 \<and> p3 \<ge> 1)))"
proof (intro conjI impI)
  assume "last_receive_time self = Some t"
  then show "avg_period (fst (snd (handler fmt update now self))) =
        Some (case avg_period self of None \<Rightarrow> now - t | Some p \<Rightarrow> 0.9 * p + 0.1 * (now - t))"
    by (simp add: handler_avg_period)
next
  show "last_receive_time (fst (snd (handler fmt update now self))) = Some now"
    by (rule handler_last_receive_time)
next
  assume "last_receive_time self = Some t \<and> avg_period self = None"
  then show "handler_periods fmt [(u1, t + 1), (u2, t + 2), (u3, t + 3)] self
          = [Some 1, Some 1, Some 1]"
    using handler_periods_three [of self t fmt u1 u2 u3] by simp
next
  assume a: "last_receive_time self = Some t \<and> avg_period self = Some p0"
  define p1 where "p1 = 0.9 * p0 + 0.1"
  define p2 where "p2 = 0.9 * p1 + 0.1"
  define p3 where "p3 = 0.9 * p2 + 0.1"
  have h: "handler_periods fmt [(u1, t + 1), (u2, t + 2), (u3, t + 3)] self
             = [Some p1, Some p2, Some p3]"
    using a handler_periods_three [of self t fmt u1 u2 u3] by (simp add: p1_def p2_def p3_def)
  have d: "\<bar>0.9 * x + 0.1 - 1\<bar> = 0.9 * \<bar>x - 1\<bar>" for x :: real
    by (simp add: abs_if)
  have up: "x \<le> 1 \<Longrightarrow> x \<le> 0.9 * x + 0.1 \<and> 0.9 * x + 0.1 \<le> 1" for x :: real
    by argo
  have down: "1 \<le> x \<Longrightarrow> 0.9 * x + 0.1 \<le> x \<and> 1 \<le> 0.9 * x + 0.1" for x :: real
    by argo
  have dist: "\<bar>p1 - 1\<bar> = 0.9 * \<bar>p0 - 1\<bar> \<and> \<bar>p2 - 1\<bar> = 0.9 * \<bar>p1 - 1\<bar> \<and> \<bar>p3 - 1\<bar> = 0.9 * \<bar>p2 - 1\<bar>"
    by (simp only: p1_def p2_def p3_def d)
  have below: "p0 \<le> 1 \<longrightarrow> p0 \<le> p1 \<and> p1 \<le> p2 \<and> p2 \<le> p3 \<and> p3 \<le> 1"
    unfolding p1_def p2_def p3_def using up by blast
  have above: "1 \<le> p0 \<longrightarrow> p0 \<ge> p1 \<and> p1 \<ge> p2 \<and> p2 \<ge> p3 \<and> p3 \<ge> 1"
    unfolding p1_def p2_def p3_def using down by blast
  show "\<exists>p1 p2 p3.
           handler_periods fmt [(u1, t + 1), (u2, t + 2), (u3, t + 3)] self
             = [Some p1, Some p2, Some p3]
           \<and> \<bar>p1 - 1\<bar> = 0.9 * \<bar>p0 - 1\<bar> \<and> \<bar>p2 - 1\<bar> = 0.9 * \<bar>p1 - 1\<bar>
           \<and> \<bar>p3 - 1\<bar> = 0.9 * \<bar>p2 - 1\<bar>
           \<and> (p0 \<le> 1 \<longrightarrow> p0 \<le> p1 \<and> p1 \<le> p2 \<and> p2 \<le> p3 \<and> p3 \<le> 1)
           \<and> (1 \<le> p0 \<longrightarrow> p0 \<ge> p1 \<and> p1 \<ge> p2 \<and> p2 \<ge> p3 \<and> p3 \<ge> 1)"
    using h dist below above by blast
qed

text \<open>
  C8 for a listener that received its first update at time 0: with no period yet, three
  updates one second apart give the period 1 each time; with the period 2, the first
  of them gives 1.9.
\<close>

theorem handler_smoothed_period_witness:
  "handler_periods (\<lambda>w p x. []) [(Map.empty, 1), (Map.empty, 2), (Map.empty, 3)]
      \<lparr>update_count = 1, last_button_state = py_None, last_receive_time = Some 0,
       avg_period = None, start_time = 0\<rparr>
     = [Some 1, Some 1, Some 1]
   \<and> avg_period (fst (snd (handler (\<lambda>w p x. []) Map.empty 1
        \<lparr>update_count = 1, last_button_state = py_None, last_receive_time = Some 0,
         avg_period = Some 2, start_time = 0\<rparr>)))
     = Some 1.9
   \<and> (\<exists>p1 p2 p3.
        handler_periods (\<lambda>w p x. []) [(Map.empty, 1), (Map.empty, 2), (Map.empty, 3)]
          \<lparr>update_count = 1, last_button_state = py_None, last_receive_time = Some 0,
           avg_period = Some 2, start_time = 0\<rparr>
        = [Some p1, Some p2, Some p3] \<and> 2 \<ge> p1 \<and> p1 \<ge> p2 \<and> p2 \<ge> p3 \<and> p3 \<ge> 1)"
proof -
  let ?f = "\<lambda>(w::nat) (p::nat) (x::real). []::string"
  let ?A = "\<lparr>update_count = 1, last_button_state = py_None, last_receive_time = Some 0,
       avg_period = None, start_time = 0\<rparr>"
  let ?B = "\<lparr>update_count = 1, last_button_state = py_None, last_receive_time = Some 0,
       avg_period = Some 2, start_time = 0\<rparr>"
  have hA: "last_receive_time ?A = Some 0 \<and> avg_period ?A = None" by simp
  have hB: "last_receive_time ?B = Some 0 \<and> avg_period ?B = Some 2" by simp
  have e: "(0::real) + 1 = 1" "(0::real) + 2 = 2" "(0::real) + 3 = 3" "(1::real) - 0 = 1"
    "0.9 * (2::real) + 0.1 * 1 = 1.9"
    by simp_all
  note thA = handler_smoothed_period [of ?A 0 ?f Map.empty 1 Map.empty Map.empty Map.empty 2,
      unfolded e]
  note thB = handler_smoothed_period [of ?B 0 ?f Map.empty 1 Map.empty Map.empty Map.empty 2,
      unfolded e]
  have a: "handler_periods ?f [(Map.empty, 1), (Map.empty, 2), (Map.empty, 3)] ?A
             = [Some 1, Some 1, Some 1]"
    using thA hA by blast
  have "avg_period (fst (snd (handler ?f Map.empty 1 ?B))) =
          Some (case avg_period ?B of None \<Rightarrow> 1 | Some p \<Rightarrow> 0.9 * p + 0.1 * 1)"
    using thB hB by blast
  then have b: "avg_period (fst (snd (handler ?f Map.empty 1 ?B))) = Some 1.9"
    by (simp only: hB option.case e)
  have "1 \<le> (2::real)" by simp
  then have c: "\<exists>p1 p2 p3.
        handler_periods ?f [(Map.empty, 1), (Map.empty, 2), (Map.empty, 3)] ?B
        = [Some p1, Some p2, Some p3] \<and> 2 \<ge> p1 \<and> p1 \<ge> p2 \<and> p2 \<ge> p3 \<and> p3 \<ge> 1"
    using thB hB by blast
  show ?thesis using a b c by blast
qed

subsection \<open>C2: the warning that no update was received\<close>

text \<open>
  C2 as stated, with a warning as soon as at least 5.0 seconds have passed since the
  last one, fails at exactly 5.0 seconds: a listener started at time 0 that never
  receives an update is warned about at the tick at time 6; at the tick at time 11,
  5.0 seconds later, no warning is emitted.
\<close>

theorem no_updates_warning_counterexample:
  "update_count (listener_init 0) = 0
   \<and> 11 - start_time (listener_init 0) > 2.0
   \<and> snd (monitor_updates [(6, listener_init 0)]) = [Log WARNING (No_updates 6)]
   \<and> 11 - last_warning_time (fst (monitor_updates [(6, listener_init 0)])) \<ge> 5.0
   \<and> snd (monitor_tick 11 (listener_init 0) (fst (monitor_updates [(6, listener_init 0)]))) = []"
  by (simp add: monitor_updates_def monitor_tick_def listener_init_def Let_def)

text \<open>
  C2, amended: at every tick with no update received so far, the warning that no
  update was received is emitted if and only if more than 2.0 seconds have passed
  since the start and more than 5.0 seconds since \<open>last_warning_time\<close>; it is then the
  only warning of the tick and \<open>last_warning_time\<close> becomes \<open>now\<close>. In particular, at a
  tick 2.1 seconds or more after the start with more than 5.0 seconds passed since
  \<open>last_warning_time\<close>, exactly one warning is emitted, and at a later tick a second
  one is emitted if and only if more than 5.0 seconds have passed since the first.
\<close>

theorem no_updates_warning:
  "update_count self = 0 \<longrightarrow>
     ((\<exists>e. Log WARNING (No_updates e) \<in> set (snd (monitor_tick now self wd)))
        \<longleftrightarrow> now - start_time self > 2.0 \<and> now - last_warning_time wd > 5.0)
     \<and> (now - start_time self > 2.0 \<and> now - last_warning_time wd > 5.0 \<longrightarrow>
          monitor_tick now self wd =
            (wd\<lparr>last_warning_time := now\<rparr>, [Log WARNING (No_updates (now - start_time self))]))
     \<and> (now - start_time self > 2.0 \<and> \<not> now - last_warning_time wd > 5.0 \<longrightarrow>
          monitor_tick now self wd = (wd, []))
     \<and> (now - start_time self \<ge> 2.1 \<and> now - last_warning_time wd > 5.0
          \<and> update_count self2 = 0 \<and> start_time self2 = start_time self \<and> now \<le> now2 \<longrightarrow>
          snd (monitor_tick now self wd) = [Log WARNING (No_updates (now - start_time self))]
          \<and> snd (monitor_tick now2 self2 (fst (monitor_tick now self wd))) =
              (if now2 - now > 5.0 then [Log WARNING (No_updates (now2 - start_time self))] else []))"
  by (auto simp: monitor_tick_def Let_def split: option.splits)

text \<open>
  The amended C2 for a listener started at time 0 that receives nothing: a warning at
  the tick at time 6, none at the tick at time 9, and none at time 11.
\<close>

theorem no_updates_warning_witness:
  "update_count (listener_init 0) = 0
   \<and> monitor_tick 6 (listener_init 0) \<lparr>last_count = 0, last_warning_time = 0\<rparr>
       = (\<lparr>last_count = 0, last_warning_time = 6\<rparr>, [Log WARNING (No_updates 6)])
   \<and> snd (monitor_tick 11 (listener_init 0)
            (fst (monitor_tick 6 (listener_init 0) \<lparr>last_count = 0, last_warning_time = 0\<rparr>)))
       = []
   \<and> monitor_tick 9 (listener_init 0) \<lparr>last_count = 0, last_warning_time = 6\<rparr>
       = (\<lparr>last_count = 0, last_warning_time = 6\<rparr>, [])"
proof -
  let ?L = "listener_init 0"
  let ?wd = "\<lparr>last_count = 0, last_warning_time = 0\<rparr>"
  let ?w6 = "\<lparr>last_count = 0, last_warning_time = 6\<rparr>"
  have c: "update_count ?L = 0" and st: "start_time ?L = 0"
    by (simp_all add: listener_init_def)
  have h6: "6 - start_time ?L > 2.0 \<and> 6 - last_warning_time ?wd > 5.0"
    and h6': "6 - start_time ?L \<ge> 2.1 \<and> 6 - last_warning_time ?wd > 5.0
          \<and> update_count ?L = 0 \<and> start_time ?L = start_time ?L \<and> (6::real) \<le> 11"
    and h9: "9 - start_time ?L > 2.0 \<and> \<not> 9 - last_warning_time ?w6 > 5.0"
    by (simp_all add: listener_init_def)
  have a: "monitor_tick 6 ?L ?wd =
             (?wd\<lparr>last_warning_time := 6\<rparr>, [Log WARNING (No_updates (6 - start_time ?L))])"
    using no_updates_warning [of ?L 6 ?wd ?L 11] c h6 by blast
  have b: "snd (monitor_tick 11 ?L (fst (monitor_tick 6 ?L ?wd))) =
             (if (11::real) - 6 > 5.0 then [Log WARNING (No_updates (11 - start_time ?L))] else [])"
    using no_updates_warning [of ?L 6 ?wd ?L 11] c h6' by blast
  have d: "monitor_tick 9 ?L ?w6 = (?w6, [])"
    using no_updates_warning [of ?L 9 ?w6 ?L 11] c h9 by blast
  show ?thesis using a b c d by (simp add: st)
qed

subsection \<open>C6: the warning that updates have stalled\<close>

text \<open>
  C6 as stated, with a warning as soon as at least 5.0 seconds have passed since the
  last one, fails at exactly 5.0 seconds: a listener whose five updates ended at
  time 1 is taken as baseline at the tick at time 9 and warned about at time 10; at the
  tick at time 15 the count has not advanced, the last update is 14 seconds old, 5.0
  seconds have passed since the warning, and no warning is emitted.
\<close>

theorem stalled_warning_counterexample:
  "update_count ((listener_init 0)\<lparr>update_count := 5, last_receive_time := Some 1\<rparr>) \<noteq> 0
   \<and> snd (monitor_updates
            [(9, (listener_init 0)\<lparr>update_count := 5, last_receive_time := Some 1\<rparr>),
             (10, (listener_init 0)\<lparr>update_count := 5, last_receive_time := Some 1\<rparr>)])
       = [Log WARNING (Stalled 9)]
   \<and> update_count ((listener_init 0)\<lparr>update_count := 5, last_receive_time := Some 1\<rparr>)
       = last_count (fst (monitor_updates
            [(9, (listener_init 0)\<lparr>update_count := 5, last_receive_time := Some 1\<rparr>),
             (10, (listener_init 0)\<lparr>update_count := 5, last_receive_time := Some 1\<rparr>)]))
   \<and> last_receive_time ((listener_init 0)\<lparr>update_count := 5, last_receive_time := Some 1\<rparr>)
       = Some 1
   \<and> (15::real) - 1 > 3.0
   \<and> 15 - last_warning_time (fst (monitor_updates
            [(9, (listener_init 0)\<lparr>update_count := 5, last_receive_time := Some 1\<rparr>),
             (10, (listener_init 0)\<lparr>update_count := 5, last_receive_time := Some 1\<rparr>)]))
       \<ge> 5.0
   \<and> snd (monitor_tick 15 ((listener_init 0)\<lparr>update_count := 5, last_receive_time := Some 1\<rparr>)
            (fst (monitor_updates
              [(9, (listener_init 0)\<lparr>update_count := 5, last_receive_time := Some 1\<rparr>),
               (10, (listener_init 0)\<lparr>update_count := 5, last_receive_time := Some 1\<rparr>)])))
       = []"
  by (simp add: monitor_updates_def monitor_tick_def listener_init_def Let_def)

text \<open>
  C6, amended: at every tick with a nonzero update count: if the count equals the
  baseline, a last receive time exists and is more than 3.0 seconds old, and more than
  5.0 seconds have passed since \<open>last_warning_time\<close>, the stalled warning is emitted and
  \<open>last_warning_time\<close> becomes \<open>now\<close>; if the count equals the baseline and one of these
  fails, nothing is emitted and nothing changes; if the count differs from the
  baseline, it becomes the baseline and nothing is emitted.
\<close>

theorem stalled_warning:
  "update_count self \<noteq> 0 \<longrightarrow>
     (update_count self = last_count wd \<and> last_receive_time self = Some t
        \<and> now - t > 3.0 \<and> now - last_warning_time wd > 5.0 \<longrightarrow>
        monitor_tick now self wd =
          (wd\<lparr>last_warning_time := now\<rparr>, [Log WARNING (Stalled (now - t))]))
     \<and> (update_count self = last_count wd
        \<and> \<not> (\<exists>t. last_receive_time self = Some t \<and> now - t > 3.0 \<and> now - last_warning_time wd > 5.0) \<longrightarrow>
        monitor_tick now self wd = (wd, []))
     \<and> (update_count self \<noteq> last_count wd \<longrightarrow>
        monitor_tick now self wd = (wd\<lparr>last_count := update_count self\<rparr>, []))"
  by (auto simp: monitor_tick_def Let_def split: option.splits)

text \<open>
  The amended C6 for a listener whose five updates ended at time 1: the tick at time 9
  takes the baseline, the tick at time 10 warns, and a tick at time 12 after that
  warning does nothing.
\<close>

theorem stalled_warning_witness:
  "update_count ((listener_init 0)\<lparr>update_count := 5, last_receive_time := Some 1\<rparr>) \<noteq> 0
   \<and> monitor_tick 9 ((listener_init 0)\<lparr>update_count := 5, last_receive_time := Some 1\<rparr>)
        \<lparr>last_count = 0, last_warning_time = 0\<rparr>
       = (\<lparr>last_count = 5, last_warning_time = 0\<rparr>, [])
   \<and> monitor_tick 10 ((listener_init 0)\<lparr>update_count := 5, last_receive_time := Some 1\<rparr>)
        \<lparr>last_count = 5, last_warning_time = 0\<rparr>
       = (\<lparr>last_count = 5, last_warning_time = 10\<rparr>, [Log WARNING (Stalled 9)])
   \<and> monitor_tick 12 ((listener_init 0)\<lparr>update_count := 5, last_receive_time := Some 1\<rparr>)
        \<lparr>last_count = 5, last_warning_time = 10\<rparr>
       = (\<lparr>last_count = 5, last_warning_time = 10\<rparr>, [])"
proof -
  let ?L = "(listener_init 0)\<lparr>update_count := 5, last_receive_time := Some 1\<rparr>"
  let ?w0 = "\<lparr>last_count = 0, last_warning_time = 0\<rparr>"
  let ?w1 = "\<lparr>last_count = 5, last_warning_time = 0\<rparr>"
  let ?w2 = "\<lparr>last_count = 5, last_warning_time = 10\<rparr>"
  have c: "update_count ?L \<noteq> 0" by (simp add: listener_init_def)
  have h0: "update_count ?L \<noteq> last_count ?w0" by (simp add: listener_init_def)
  have h1: "update_count ?L = last_count ?w1 \<and> last_receive_time ?L = Some 1
        \<and> (10::real) - 1 > 3.0 \<and> 10 - last_warning_time ?w1 > 5.0"
    by (simp add: listener_init_def)
  have h2: "update_count ?L = last_count ?w2
        \<and> \<not> (\<exists>t. last_receive_time ?L = Some t \<and> 12 - t > 3.0 \<and> 12 - last_warning_time ?w2 > 5.0)"
    by (simp add: listener_init_def)
  have a: "monitor_tick 9 ?L ?w0 = (?w0\<lparr>last_count := update_count ?L\<rparr>, [])"
    using stalled_warning [of ?L ?w0 1 9] c h0 by blast
  have b: "monitor_tick 10 ?L ?w1 = (?w1\<lparr>last_warning_time := 10\<rparr>, [Log WARNING (Stalled (10 - 1))])"
    using stalled_warning [of ?L ?w1 1 10] c h1 by blast
  have d: "monitor_tick 12 ?L ?w2 = (?w2, [])"
    using stalled_warning [of ?L ?w2 1 12] c h2 by blast
  show ?thesis using a b c d by (simp add: listener_init_def)
qed

end
